theory Spec2Isabelle
  imports Main "HOL-Library.Word" "HOL-Library.Signed_Division"
begin

section \<open>C integers\<close>

text \<open>
  The program is C for a 32-bit target: every \<open>int\<close> is a 32-bit two's-complement value.
  \<open>+\<close>, \<open>-\<close> and \<open>*\<close> on \<open>32 word\<close> wrap around as the target's instructions do
  (the C standard itself leaves signed overflow undefined); comparisons and division are
  the signed ones, read through \<open>sint\<close>. C's \<open>/\<close> truncates towards zero (\<open>sdiv\<close> on
  \<open>int\<close>): \<open>c_quot\<close> is the quotient for a divisor known to be non-zero, \<open>c_div\<close> the
  division by a divisor that may be zero, which has no result (the target raises an
  integer-divide-by-zero exception).
\<close>

type_synonym c_int = "32 word"

definition c_lt :: "c_int \<Rightarrow> c_int \<Rightarrow> bool" where
  "c_lt a b = (sint a < sint b)"

definition c_gt :: "c_int \<Rightarrow> c_int \<Rightarrow> bool" where
  "c_gt a b = (sint b < sint a)"

definition c_quot :: "c_int \<Rightarrow> c_int \<Rightarrow> c_int" where
  "c_quot a b = word_of_int (sint a sdiv sint b)"

definition c_div :: "c_int \<Rightarrow> c_int \<Rightarrow> c_int option" where
  "c_div a b = (if b = 0 then None else Some (c_quot a b))"

section \<open>Configuration constants (the \<open>#define\<close>s of main.c)\<close>

definition SERVO_MIN_US :: c_int where "SERVO_MIN_US = 500"
definition SERVO_MAX_US :: c_int where "SERVO_MAX_US = 2400"
definition SERVO_PERIOD_US :: c_int where "SERVO_PERIOD_US = 20000"
definition SERVO_MAX_DUTY :: c_int where "SERVO_MAX_DUTY = 8191"

definition SUN_EAST :: c_int where "SUN_EAST = 0"
definition SUN_OVERHEAD :: c_int where "SUN_OVERHEAD = 1"
definition SUN_WEST :: c_int where "SUN_WEST = 2"

definition LDR_THRESHOLD :: c_int where "LDR_THRESHOLD = 150"

section \<open>Helper\<close>

text \<open>
  \<^verbatim>\<open>static int clamp_int(int v, int lo, int hi) {
    if (v < lo) return lo;
    if (v > hi) return hi;
    return v; }\<close>
\<close>

definition clamp_int :: "c_int \<Rightarrow> c_int \<Rightarrow> c_int \<Rightarrow> c_int" where
  "clamp_int v lo hi = (if c_lt v lo then lo else if c_gt v hi then hi else v)"

section \<open>Servo arithmetic\<close>

text \<open>
  The two local variables of \<open>set_servo_angle\<close>, \<open>pulse_width_us\<close> and \<open>duty\<close>, as
  functions of the angle passed in. The
  source writes them with the four \<open>SERVO_*\<close> macros; here the macros are the fields of a
  record, so that the arithmetic can be stated for other configurations as well, and
  \<open>servo_config\<close> is the configuration the program is compiled with. The divisor 180 is
  a literal, the divisor \<open>SERVO_PERIOD_US\<close> is a macro and may be zero in another
  configuration.
\<close>

record servo_params =
  min_pulse_us :: c_int
  max_pulse_us :: c_int
  period_us :: c_int
  max_duty :: c_int

definition servo_config :: servo_params where
  "servo_config = \<lparr> min_pulse_us = SERVO_MIN_US, max_pulse_us = SERVO_MAX_US,
                     period_us = SERVO_PERIOD_US, max_duty = SERVO_MAX_DUTY \<rparr>"

definition servo_pulse_width_us :: "servo_params \<Rightarrow> c_int \<Rightarrow> c_int" where
  "servo_pulse_width_us p angle0 =
     (let angle = clamp_int angle0 0 180
      in min_pulse_us p + c_quot (angle * (max_pulse_us p - min_pulse_us p)) 180)"

definition servo_duty :: "servo_params \<Rightarrow> c_int \<Rightarrow> c_int option" where
  "servo_duty p angle0 = c_div (servo_pulse_width_us p angle0 * max_duty p) (period_us p)"

section \<open>Sun direction and tilt angle\<close>

text \<open>
  \<open>detect_sun_direction\<close> compares with the macro \<open>LDR_THRESHOLD\<close>; \<open>detect_sun_direction_with\<close>
  is its body with the threshold as an argument.
\<close>

definition detect_sun_direction_with :: "c_int \<Rightarrow> c_int \<Rightarrow> c_int \<Rightarrow> c_int" where
  "detect_sun_direction_with threshold east west =
     (let horizontal_diff = east - west
      in if c_gt horizontal_diff threshold then SUN_EAST
         else if c_lt horizontal_diff (- threshold) then SUN_WEST
         else SUN_OVERHEAD)"

definition detect_sun_direction :: "c_int \<Rightarrow> c_int \<Rightarrow> c_int" where
  "detect_sun_direction east west = detect_sun_direction_with LDR_THRESHOLD east west"

text \<open>The \<open>switch\<close> of \<open>compute_tilt_angle\<close>: two cases, everything else is the default.\<close>

definition compute_tilt_angle :: "c_int \<Rightarrow> c_int" where
  "compute_tilt_angle sun_direction =
     (if sun_direction = SUN_EAST then 30
      else if sun_direction = SUN_WEST then 150
      else 90)"

section \<open>Formatted output\<close>

text \<open>
  \<open>printf_d\<close> is the conversion \<open>%d\<close> of an \<open>int\<close>: a minus sign for a negative value, then
  the decimal digits without leading zeros. \<open>format_str\<close> walks a format string holding
  only \<open>%s\<close> and \<open>%d\<close> conversions, the two that \<open>send_to_thingspeak\<close> uses; a
  conversion without an argument of its kind is undefined in C and does not occur in the
  program, the model stops the output there. \<open>snprintf\<close> with a buffer of \<open>n\<close> bytes keeps at most \<open>n - 1\<close>
  characters (the last byte of the buffer is the terminator).
\<close>

fun dec_nat :: "nat \<Rightarrow> string" where
  "dec_nat n = (if n < 10 then [''0123456789'' ! n]
                else dec_nat (n div 10) @ [''0123456789'' ! (n mod 10)])"

declare dec_nat.simps [simp del]

definition printf_d :: "c_int \<Rightarrow> string" where
  "printf_d i = (if sint i < 0 then CHR ''-'' # dec_nat (nat (- sint i)) else dec_nat (nat (sint i)))"

datatype printf_arg = Arg_s string | Arg_d c_int

fun format_str :: "string \<Rightarrow> printf_arg list \<Rightarrow> string" where
  "format_str [] args = []"
| "format_str [c] args = [c]"
| "format_str (c # d # fmt) args =
     (if c = CHR ''%'' \<and> d = CHR ''s'' then
        (case args of Arg_s s # rest \<Rightarrow> s @ format_str fmt rest | _ \<Rightarrow> [])
      else if c = CHR ''%'' \<and> d = CHR ''d'' then
        (case args of Arg_d i # rest \<Rightarrow> printf_d i @ format_str fmt rest | _ \<Rightarrow> [])
      else c # format_str (d # fmt) args)"

definition snprintf :: "nat \<Rightarrow> string \<Rightarrow> printf_arg list \<Rightarrow> string" where
  "snprintf n fmt args = take (n - 1) (format_str fmt args)"

definition THINGSPEAK_API_KEY :: string where
  "THINGSPEAK_API_KEY = ''JA0W2AWRBR5KH8ZF''"

section \<open>Drivers, effects and the main loop\<close>

text \<open>
  The ADC, LEDC and HTTP client drivers are ESP-IDF code outside the repository. What
  they return in one pass of the loop is an input of the model (\<open>cycle_env\<close>); what the
  program does to them is a trace of events. A computation yields its trace and either a
  value or \<open>None\<close> when the process has stopped.
\<close>

type_synonym esp_err_t = c_int

definition ESP_OK :: esp_err_t where "ESP_OK = 0"

datatype adc_channel = LDR_EAST_CH | LDR_WEST_CH

datatype http_method = HTTP_METHOD_GET

datatype event =
    Printf_loop_running
  | Adc_oneshot_read adc_channel
  | Ledc_set_duty c_int
  | Ledc_update_duty
  | Printf_readings c_int c_int c_int c_int
  | Http_client_init http_method string
  | Http_client_perform
  | Printf_update_sent
  | Printf_send_failed esp_err_t
  | Http_client_cleanup
  | Task_delay_ms nat
  | Divide_by_zero_exception
  | Abort

record cycle_env =
  adc_east :: "esp_err_t \<times> c_int"
  adc_west :: "esp_err_t \<times> c_int"
  ledc_set_duty_ret :: esp_err_t
  ledc_update_duty_ret :: esp_err_t
  http_perform_ret :: esp_err_t

type_synonym 'a eff = "event list \<times> 'a option"

definition ret :: "'a \<Rightarrow> 'a eff" where
  "ret x = ([], Some x)"

definition emit :: "event \<Rightarrow> unit eff" where
  "emit e = ([e], Some ())"

definition eff_bind :: "'a eff \<Rightarrow> ('a \<Rightarrow> 'b eff) \<Rightarrow> 'b eff" where
  "eff_bind m f =
     (case m of
        (tr, None) \<Rightarrow> (tr, None)
      | (tr, Some x) \<Rightarrow> (case f x of (tr', r) \<Rightarrow> (tr @ tr', r)))"

text \<open>
  Modelled from the spec: the macro \<open>ESP_ERROR_CHECK\<close> of ESP-IDF's \<open>esp_err.h\<close>, which is
  not part of the repository. The spec describes it as the abort-on-error pattern:
  a driver call that fails aborts the entire process (fail-fast).
\<close>

definition ESP_ERROR_CHECK :: "esp_err_t \<Rightarrow> unit eff" where
  "ESP_ERROR_CHECK rc = (if rc = ESP_OK then ret () else ([Abort], None))"

text \<open>
  \<open>adc_oneshot_read\<close> returns a code and, when it succeeds, stores the reading: the pair
  \<open>adc_east\<close> (\<open>adc_west\<close>) of the environment.
\<close>

definition read_ldr_values :: "cycle_env \<Rightarrow> (c_int \<times> c_int) eff" where
  "read_ldr_values env =
     eff_bind (emit (Adc_oneshot_read LDR_EAST_CH)) (\<lambda>_.
     eff_bind (ESP_ERROR_CHECK (fst (adc_east env))) (\<lambda>_.
     eff_bind (emit (Adc_oneshot_read LDR_WEST_CH)) (\<lambda>_.
     eff_bind (ESP_ERROR_CHECK (fst (adc_west env))) (\<lambda>_.
     ret (snd (adc_east env), snd (adc_west env))))))"

text \<open>
  \<open>set_servo_angle\<close> computes the duty with the program's constants and hands it to the
  LEDC driver. Its division is by \<open>SERVO_PERIOD_US = 20000\<close>, so the first branch below is
  never taken; it is there because \<open>servo_duty\<close> is written for any configuration.
\<close>

definition set_servo_angle :: "cycle_env \<Rightarrow> c_int \<Rightarrow> unit eff" where
  "set_servo_angle env angle =
     (case servo_duty servo_config angle of
        None \<Rightarrow> ([Divide_by_zero_exception], None)
      | Some duty \<Rightarrow>
          eff_bind (emit (Ledc_set_duty duty)) (\<lambda>_.
          eff_bind (ESP_ERROR_CHECK (ledc_set_duty_ret env)) (\<lambda>_.
          eff_bind (emit Ledc_update_duty) (\<lambda>_.
          ESP_ERROR_CHECK (ledc_update_duty_ret env)))))"

text \<open>
  \<open>send_to_thingspeak\<close> checks the result of \<open>esp_http_client_perform\<close> with a plain
  \<open>if\<close> and prints one of two messages; it does not use \<open>ESP_ERROR_CHECK\<close>.
\<close>

definition send_to_thingspeak :: "cycle_env \<Rightarrow> c_int \<Rightarrow> c_int \<Rightarrow> c_int \<Rightarrow> c_int \<Rightarrow> unit eff" where
  "send_to_thingspeak env east west sun angle =
     (let url = snprintf 256
            ''http://api.thingspeak.com/update?api_key=%s&field1=%d&field2=%d&field3=%d&field4=%d''
            [Arg_s THINGSPEAK_API_KEY, Arg_d east, Arg_d west, Arg_d sun, Arg_d angle];
          err = http_perform_ret env
      in eff_bind (emit (Http_client_init HTTP_METHOD_GET url)) (\<lambda>_.
         eff_bind (emit Http_client_perform) (\<lambda>_.
         eff_bind (if err = ESP_OK then emit Printf_update_sent
                   else emit (Printf_send_failed err)) (\<lambda>_.
         emit Http_client_cleanup))))"

text \<open>
  One pass of the \<open>while (1)\<close> loop of \<open>app_main\<close>. The set-up before the loop (timer,
  channel, ADC, WiFi, the five-second delay) has no part in the properties below.
\<close>

definition loop_body :: "cycle_env \<Rightarrow> unit eff" where
  "loop_body env =
     eff_bind (emit Printf_loop_running) (\<lambda>_.
     eff_bind (read_ldr_values env) (\<lambda>(ldr_east, ldr_west).
       let sun_dir = detect_sun_direction ldr_east ldr_west;
           tilt_angle = compute_tilt_angle sun_dir
       in eff_bind (set_servo_angle env tilt_angle) (\<lambda>_.
          eff_bind (emit (Printf_readings ldr_east ldr_west sun_dir tilt_angle)) (\<lambda>_.
          eff_bind (send_to_thingspeak env ldr_east ldr_west sun_dir tilt_angle) (\<lambda>_.
          emit (Task_delay_ms 15000))))))"

text \<open>
  The loop never ends by itself. It is run on the driver results of finitely many
  passes, one \<open>cycle_env\<close> each: \<open>Some ()\<close> says the loop is still running after them,
  \<open>None\<close> that the process stopped in one of them.
\<close>

fun app_main_loop :: "cycle_env list \<Rightarrow> unit eff" where
  "app_main_loop [] = ret ()"
| "app_main_loop (env # envs) = eff_bind (loop_body env) (\<lambda>_. app_main_loop envs)"

text \<open>Driver results of a pass in which every call succeeds, with the readings 2000 and 1500.\<close>

definition sample_env :: cycle_env where
  "sample_env = \<lparr> adc_east = (ESP_OK, 2000), adc_west = (ESP_OK, 1500),
                   ledc_set_duty_ret = ESP_OK, ledc_update_duty_ret = ESP_OK,
                   http_perform_ret = ESP_OK \<rparr>"

section \<open>Signed arithmetic without overflow\<close>

text \<open>
  When the mathematical result fits into 32 bits, the wrapped result read as a signed
  number is the mathematical one.
\<close>


lemma sint_minus_fits:
  fixes a b :: c_int
  assumes "- 2147483648 \<le> sint a - sint b" "sint a - sint b < 2147483648"
  shows "sint (a - b) = sint a - sint b"
  using assms by (simp add: sint_word_ariths signed_take_bit_int_eq_self)

lemma sint_plus_fits:
  fixes a b :: c_int
  assumes "- 2147483648 \<le> sint a + sint b" "sint a + sint b < 2147483648"
  shows "sint (a + b) = sint a + sint b"
  using assms by (simp add: sint_word_ariths signed_take_bit_int_eq_self)

lemma sint_times_fits:
  fixes a b :: c_int
  assumes "- 2147483648 \<le> sint a * sint b" "sint a * sint b < 2147483648"
  shows "sint (a * b) = sint a * sint b"
  using assms by (simp add: sint_word_ariths signed_take_bit_int_eq_self)

lemma sint_uminus_fits:
  fixes a :: c_int
  assumes "- 2147483648 < sint a"
  shows "sint (- a) = - sint a"
proof -
  have "sint a < 2147483648" using sint_lt [of a] by simp
  with assms show ?thesis by (simp add: sint_word_ariths signed_take_bit_int_eq_self)
qed

lemma sint_bounds:
  fixes a :: c_int
  shows "- 2147483648 \<le> sint a" "sint a < 2147483648"
  using sint_ge [of a] sint_lt [of a] by simp_all

lemma sint_of_int_fits:
  assumes "- 2147483648 \<le> k" "k < 2147483648"
  shows "sint (word_of_int k :: c_int) = k"
  using assms by (simp add: sint_sbintrunc' signed_take_bit_int_eq_self)


text \<open>Truncating division by a positive divisor.\<close>

lemma sdiv_pos_divisor:
  fixes a c :: int
  assumes "0 < c"
  shows "a sdiv c = (if 0 \<le> a then a div c else - ((- a) div c))"
  using assms by (simp add: signed_divide_int_def sgn_if)

lemma sdiv_mono:
  fixes a b c :: int
  assumes "a \<le> b" "0 < c"
  shows "a sdiv c \<le> b sdiv c"
proof -
  consider "0 \<le> a" | "a < 0" "0 \<le> b" | "b < 0" using assms(1) by linarith
  then show ?thesis
  proof cases
    case 1
    then show ?thesis using assms by (simp add: sdiv_pos_divisor zdiv_mono1)
  next
    case 2
    have "0 \<le> (- a) div c" using 2 assms(2) by (simp add: pos_imp_zdiv_nonneg_iff)
    moreover have "0 \<le> b div c" using 2 assms(2) by (simp add: pos_imp_zdiv_nonneg_iff)
    ultimately show ?thesis using 2 assms(2) by (simp add: sdiv_pos_divisor)
  next
    case 3
    have "(- b) div c \<le> (- a) div c" using assms by (intro zdiv_mono1) simp_all
    then show ?thesis using 3 assms by (simp add: sdiv_pos_divisor)
  qed
qed

lemma sdiv_bounds:
  fixes a c :: int
  assumes "0 < c"
  shows "- \<bar>a\<bar> \<le> a sdiv c" "a sdiv c \<le> \<bar>a\<bar>"
proof -
  have "\<bar>a\<bar> div c \<le> \<bar>a\<bar>"
    by (cases "a = 0") (simp_all add: int_div_le_self)
  moreover have "0 \<le> \<bar>a\<bar> div c" using assms by (simp add: pos_imp_zdiv_nonneg_iff)
  ultimately show "- \<bar>a\<bar> \<le> a sdiv c" "a sdiv c \<le> \<bar>a\<bar>"
    using assms by (auto simp add: sdiv_pos_divisor abs_if split: if_splits)
qed

lemma sint_c_quot:
  assumes "0 < sint b"
  shows "sint (c_quot a b) = sint a sdiv sint b"
proof -
  have "- \<bar>sint a\<bar> \<le> sint a sdiv sint b" "sint a sdiv sint b \<le> \<bar>sint a\<bar>"
    using sdiv_bounds [OF assms] by simp_all
  moreover have "sint a = - 2147483648 \<or> \<bar>sint a\<bar> < 2147483648"
    using sint_bounds [of a] by linarith
  moreover have "sint a = - 2147483648 \<Longrightarrow> sint a sdiv sint b \<le> 0"
    using assms by (simp add: sdiv_pos_divisor pos_imp_zdiv_nonneg_iff)
  ultimately have "- 2147483648 \<le> sint a sdiv sint b" "sint a sdiv sint b < 2147483648"
    using sint_bounds [of a] by (auto simp add: abs_if split: if_splits)
  then show ?thesis unfolding c_quot_def by (rule sint_of_int_fits)
qed

lemma sun_codes_distinct:
  "SUN_EAST \<noteq> SUN_WEST" "SUN_EAST \<noteq> SUN_OVERHEAD" "SUN_WEST \<noteq> SUN_OVERHEAD"
  by (simp_all add: SUN_EAST_def SUN_WEST_def SUN_OVERHEAD_def)


section \<open>Sun direction\<close>

text \<open>
  C1. \<open>detect_sun_direction\<close> (with any non-negative threshold, 150 in the program)
  returns East exactly when \<open>east - west > threshold\<close>, West exactly when
  \<open>east - west < -threshold\<close> and Overhead exactly in between, the two boundaries
  included, for all readings whose difference \<open>east - west\<close> fits a 32-bit \<open>int\<close>.
  All non-negative readings are of that kind.
\<close>

theorem detect_sun_direction_with_classifies:
  assumes thr: "0 \<le> sint threshold"
    and lo: "- 2147483648 \<le> sint east - sint west"
    and hi: "sint east - sint west < 2147483648"
  shows "(detect_sun_direction_with threshold east west = SUN_EAST
            \<longleftrightarrow> sint east - sint west > sint threshold)
       \<and> (detect_sun_direction_with threshold east west = SUN_WEST
            \<longleftrightarrow> sint east - sint west < - sint threshold)
       \<and> (detect_sun_direction_with threshold east west = SUN_OVERHEAD
            \<longleftrightarrow> - sint threshold \<le> sint east - sint west
                \<and> sint east - sint west \<le> sint threshold)"
proof -
  have diff: "sint (east - west) = sint east - sint west"
    using lo hi by (rule sint_minus_fits)
  have neg: "sint (- threshold) = - sint threshold"
    using thr by (intro sint_uminus_fits) simp
  show ?thesis
    using thr sun_codes_distinct
    by (auto simp add: detect_sun_direction_with_def Let_def c_gt_def c_lt_def diff neg)
qed

text \<open>The witness is at the boundary: a difference of exactly 150 is Overhead, 151 is not.\<close>

theorem detect_sun_direction_with_classifies_witness:
  "0 \<le> sint (150 :: c_int)
   \<and> - 2147483648 \<le> sint (2150 :: c_int) - sint (2000 :: c_int)
   \<and> sint (2150 :: c_int) - sint (2000 :: c_int) < 2147483648
   \<and> sint (2150 :: c_int) - sint (2000 :: c_int) = sint (150 :: c_int)
   \<and> detect_sun_direction_with 150 2150 2000 = SUN_OVERHEAD
   \<and> detect_sun_direction 2150 2000 = SUN_OVERHEAD
   \<and> detect_sun_direction 2000 2150 = SUN_OVERHEAD
   \<and> detect_sun_direction 2151 2000 = SUN_EAST
   \<and> detect_sun_direction 2000 2151 = SUN_WEST"
  using detect_sun_direction_with_classifies [of 150 2150 2000]
    detect_sun_direction_with_classifies [of 150 2000 2150]
    detect_sun_direction_with_classifies [of 150 2151 2000]
    detect_sun_direction_with_classifies [of 150 2000 2151]
  by (simp add: detect_sun_direction_def LDR_THRESHOLD_def)

text \<open>
  Without the condition on the difference the statement fails: for \<open>east = -2147483648\<close>
  and \<open>west = 1\<close> the subtraction wraps around to 2147483647 and the function answers
  East, although \<open>east - west\<close> is far below \<open>-threshold\<close>.
\<close>

theorem detect_sun_direction_overflow_counterexample:
  "detect_sun_direction (- 2147483648) 1 = SUN_EAST
   \<and> sint (- 2147483648 :: c_int) - sint (1 :: c_int) < - sint LDR_THRESHOLD
   \<and> \<not> (sint (- 2147483648 :: c_int) - sint (1 :: c_int) > sint LDR_THRESHOLD)"
  by (simp add: detect_sun_direction_def detect_sun_direction_with_def c_gt_def c_lt_def
      LDR_THRESHOLD_def)

section \<open>Tilt angle\<close>

text \<open>
  C2. \<open>compute_tilt_angle\<close> maps East to 30, Overhead to 90 and West to 150, and every
  other value of its \<open>int\<close> argument to 90.
\<close>

theorem compute_tilt_angle_lookup:
  "compute_tilt_angle SUN_EAST = 30
   \<and> compute_tilt_angle SUN_OVERHEAD = 90
   \<and> compute_tilt_angle SUN_WEST = 150
   \<and> (sun_direction \<notin> {SUN_EAST, SUN_OVERHEAD, SUN_WEST} \<longrightarrow> compute_tilt_angle sun_direction = 90)"
  using sun_codes_distinct by (simp add: compute_tilt_angle_def)

theorem compute_tilt_angle_lookup_witness:
  "(7 :: c_int) \<notin> {SUN_EAST, SUN_OVERHEAD, SUN_WEST} \<and> compute_tilt_angle 7 = 90
   \<and> (- 1 :: c_int) \<notin> {SUN_EAST, SUN_OVERHEAD, SUN_WEST} \<and> compute_tilt_angle (- 1) = 90"
  using compute_tilt_angle_lookup [of 7] compute_tilt_angle_lookup [of "- 1"]
  by (simp add: SUN_EAST_def SUN_WEST_def SUN_OVERHEAD_def)

section \<open>Servo pulse width and duty\<close>

lemmas servo_config_simps =
  servo_config_def SERVO_MIN_US_def SERVO_MAX_US_def SERVO_PERIOD_US_def SERVO_MAX_DUTY_def

lemmas servo_eval_simps =
  servo_duty_def c_div_def c_quot_def servo_pulse_width_us_def clamp_int_def
  c_lt_def c_gt_def signed_divide_int_def servo_config_simps

lemma servo_at_30: "servo_pulse_width_us servo_config 30 = 816" "servo_duty servo_config 30 = Some 334"
  by (simp_all add: servo_eval_simps)

lemma servo_at_90: "servo_pulse_width_us servo_config 90 = 1450" "servo_duty servo_config 90 = Some 593"
  by (simp_all add: servo_eval_simps)

lemma servo_at_150: "servo_pulse_width_us servo_config 150 = 2083" "servo_duty servo_config 150 = Some 853"
  by (simp_all add: servo_eval_simps)

lemmas sun_eval_simps =
  detect_sun_direction_def detect_sun_direction_with_def c_lt_def c_gt_def LDR_THRESHOLD_def

lemma clamp_int_inside:
  assumes "0 \<le> sint angle" "sint angle \<le> 180"
  shows "clamp_int angle 0 180 = angle"
  using assms by (simp add: clamp_int_def c_lt_def c_gt_def)

lemma scaled_angle_bounds:
  fixes a d :: int
  assumes "0 \<le> a" "a \<le> 180" "0 \<le> d"
  shows "0 \<le> a * d" "a * d \<le> 180 * d" "0 \<le> a * d div 180" "a * d div 180 \<le> d"
proof -
  show nonneg: "0 \<le> a * d" using assms by simp
  show le: "a * d \<le> 180 * d" using assms by (simp add: mult_right_mono)
  show "0 \<le> a * d div 180" using nonneg by (simp add: pos_imp_zdiv_nonneg_iff)
  have "a * d div 180 \<le> 180 * d div 180" using le by (rule zdiv_mono1) simp
  then show "a * d div 180 \<le> d" by simp
qed

lemma sint_servo_pulse_width_us:
  assumes angle: "0 \<le> sint angle" "sint angle \<le> 180"
    and order: "sint (min_pulse_us p) \<le> sint (max_pulse_us p)"
    and fits: "180 * (sint (max_pulse_us p) - sint (min_pulse_us p)) < 2147483648"
  shows "sint (servo_pulse_width_us p angle) =
           sint (min_pulse_us p)
           + sint angle * (sint (max_pulse_us p) - sint (min_pulse_us p)) div 180"
proof -
  define d where "d = sint (max_pulse_us p) - sint (min_pulse_us p)"
  have d0: "0 \<le> d" and d180: "180 * d < 2147483648"
    using order fits by (simp_all add: d_def)
  have span: "sint (max_pulse_us p - min_pulse_us p) = d"
    unfolding d_def using d0 d180 by (intro sint_minus_fits) (simp_all add: d_def)
  note b = scaled_angle_bounds [OF angle d0]
  have prod: "sint (angle * (max_pulse_us p - min_pulse_us p)) = sint angle * d"
    using b d180 by (subst sint_times_fits) (simp_all add: span)
  have quot: "sint (c_quot (angle * (max_pulse_us p - min_pulse_us p)) 180) = sint angle * d div 180"
    using b by (simp add: sint_c_quot prod sdiv_pos_divisor)
  have "sint (min_pulse_us p + c_quot (angle * (max_pulse_us p - min_pulse_us p)) 180)
          = sint (min_pulse_us p) + sint angle * d div 180"
    using b sint_bounds [of "min_pulse_us p"] sint_bounds [of "max_pulse_us p"]
    by (subst sint_plus_fits) (simp_all add: quot d_def)
  then show ?thesis
    by (simp add: servo_pulse_width_us_def Let_def clamp_int_inside [OF angle] d_def)
qed

lemma servo_duty_value:
  assumes period: "0 < sint (period_us p)"
    and lo: "- 2147483648 \<le> sint (servo_pulse_width_us p angle) * sint (max_duty p)"
    and hi: "sint (servo_pulse_width_us p angle) * sint (max_duty p) < 2147483648"
  shows "\<exists>d. servo_duty p angle = Some d
           \<and> sint d = (sint (servo_pulse_width_us p angle) * sint (max_duty p)) sdiv sint (period_us p)"
proof -
  have nz: "period_us p \<noteq> 0" using period by auto
  have "sint (c_quot (servo_pulse_width_us p angle * max_duty p) (period_us p))
          = (sint (servo_pulse_width_us p angle) * sint (max_duty p)) sdiv sint (period_us p)"
    using period lo hi by (simp add: sint_c_quot sint_times_fits)
  then show ?thesis using nz by (simp add: servo_duty_def c_div_def)
qed


lemma pulse_between:
  assumes angle: "0 \<le> sint angle" "sint angle \<le> 180"
    and order: "sint (min_pulse_us p) \<le> sint (max_pulse_us p)"
    and fits: "180 * (sint (max_pulse_us p) - sint (min_pulse_us p)) < 2147483648"
  shows "sint (min_pulse_us p) \<le> sint (servo_pulse_width_us p angle)"
    and "sint (servo_pulse_width_us p angle) \<le> sint (max_pulse_us p)"
proof -
  have d0: "0 \<le> sint (max_pulse_us p) - sint (min_pulse_us p)" using order by simp
  note b = scaled_angle_bounds [OF angle d0]
  show "sint (min_pulse_us p) \<le> sint (servo_pulse_width_us p angle)"
    using b by (simp add: sint_servo_pulse_width_us [OF angle order fits])
  show "sint (servo_pulse_width_us p angle) \<le> sint (max_pulse_us p)"
    using b by (simp add: sint_servo_pulse_width_us [OF angle order fits])
qed

text \<open>
  The bound on the duty for any configuration whose two products stay inside a 32-bit
  \<open>int\<close> and whose period is not zero.
\<close>

lemma servo_duty_bounded_if_fits:
  assumes angle: "0 \<le> sint angle" "sint angle \<le> 180"
    and min0: "0 \<le> sint (min_pulse_us p)"
    and order: "sint (min_pulse_us p) \<le> sint (max_pulse_us p)"
    and period: "sint (max_pulse_us p) \<le> sint (period_us p)"
    and duty0: "0 \<le> sint (max_duty p)"
    and nonzero: "period_us p \<noteq> 0"
    and fits1: "180 * (sint (max_pulse_us p) - sint (min_pulse_us p)) < 2147483648"
    and fits2: "sint (max_pulse_us p) * sint (max_duty p) < 2147483648"
  shows "\<exists>d. servo_duty p angle = Some d \<and> 0 \<le> sint d \<and> sint d \<le> sint (max_duty p)"
proof -
  define w where "w = sint (servo_pulse_width_us p angle)"
  define m where "m = sint (max_duty p)"
  define t where "t = sint (period_us p)"
  have w_lo: "0 \<le> w" and w_hi: "w \<le> sint (max_pulse_us p)"
    using pulse_between [OF angle order fits1] min0 by (simp_all add: w_def)
  have "sint (period_us p) \<noteq> 0" using nonzero by (simp add: signed_eq_0_iff)
  then have t_pos: "0 < t"
    using min0 order period by (simp add: t_def)
  have wm0: "0 \<le> w * m" using w_lo duty0 by (simp add: m_def)
  have "w * m \<le> sint (max_pulse_us p) * m"
    using w_hi duty0 by (simp add: m_def mult_right_mono)
  then have wm_fits: "w * m < 2147483648" using fits2 by (simp add: m_def)
  obtain d where d: "servo_duty p angle = Some d" and sd: "sint d = (w * m) sdiv t"
    using servo_duty_value [of p angle] t_pos wm0 wm_fits
    by (auto simp add: w_def m_def t_def)
  have val: "sint d = w * m div t" using sd wm0 t_pos by (simp add: sdiv_pos_divisor)
  have lo: "0 \<le> w * m div t" using wm0 t_pos by (simp add: pos_imp_zdiv_nonneg_iff)
  have "w * m \<le> t * m"
    using w_hi period duty0 by (simp add: m_def t_def mult_right_mono)
  then have "w * m div t \<le> t * m div t" using t_pos by (rule zdiv_mono1)
  then have hi: "w * m div t \<le> m" using t_pos by simp
  show ?thesis using d val lo hi by (simp add: m_def)
qed

text \<open>
  C3. For every angle in \<open>[0, 180]\<close> and pulse bounds with
  \<open>0 \<le> min_pulse_us \<le> max_pulse_us \<le> period_us\<close>, over the period and the maximal duty the
  program is compiled with (20000 and 8191, so \<open>max_duty \<ge> 0\<close>), the duty is computed and
  lies within \<open>[0, max_duty]\<close>. The program's pulse bounds 500 and 2400 are of that kind.
\<close>

theorem servo_duty_within_max_duty:
  assumes angle: "0 \<le> sint angle" "sint angle \<le> 180"
    and min0: "0 \<le> sint (min_pulse_us p)"
    and order: "sint (min_pulse_us p) \<le> sint (max_pulse_us p)"
    and period: "sint (max_pulse_us p) \<le> sint (period_us p)"
    and timer: "period_us p = SERVO_PERIOD_US" "max_duty p = SERVO_MAX_DUTY"
  shows "\<exists>d. servo_duty p angle = Some d \<and> 0 \<le> sint d \<and> sint d \<le> sint (max_duty p)"
proof -
  have t: "sint (period_us p) = 20000" and m: "sint (max_duty p) = 8191"
    by (simp_all add: timer SERVO_PERIOD_US_def SERVO_MAX_DUTY_def)
  have nonzero: "period_us p \<noteq> 0"
    by (simp add: timer SERVO_PERIOD_US_def)
  have duty0: "0 \<le> sint (max_duty p)" by (simp add: m)
  have fits1: "180 * (sint (max_pulse_us p) - sint (min_pulse_us p)) < 2147483648"
    using min0 order period by (simp add: t)
  have fits2: "sint (max_pulse_us p) * sint (max_duty p) < 2147483648"
    using period by (simp add: t m)
  show ?thesis
    by (rule servo_duty_bounded_if_fits [OF angle min0 order period duty0 nonzero fits1 fits2])
qed

text \<open>The program's own configuration, at 90 degrees: the duty is 593.\<close>

theorem servo_duty_within_max_duty_witness:
  "0 \<le> sint (90 :: c_int) \<and> sint (90 :: c_int) \<le> 180
   \<and> 0 \<le> sint (min_pulse_us servo_config)
   \<and> sint (min_pulse_us servo_config) \<le> sint (max_pulse_us servo_config)
   \<and> sint (max_pulse_us servo_config) \<le> sint (period_us servo_config)
   \<and> period_us servo_config = SERVO_PERIOD_US
   \<and> max_duty servo_config = SERVO_MAX_DUTY
   \<and> (\<exists>d. servo_duty servo_config 90 = Some d \<and> 0 \<le> sint d \<and> sint d \<le> sint (max_duty servo_config))"
  using servo_duty_within_max_duty [of 90 servo_config]
  by (simp add: servo_config_simps)

text \<open>
  Monotonicity of the duty for any configuration whose products stay inside a 32-bit
  \<open>int\<close>, with a positive period and a non-negative maximal duty.
\<close>

lemma servo_duty_monotone_if_fits:
  assumes a1: "0 \<le> sint a1" and a12: "sint a1 \<le> sint a2" and a2: "sint a2 \<le> 180"
    and order: "sint (min_pulse_us p) \<le> sint (max_pulse_us p)"
    and duty0: "0 \<le> sint (max_duty p)"
    and period: "0 < sint (period_us p)"
    and fits1: "180 * (sint (max_pulse_us p) - sint (min_pulse_us p)) < 2147483648"
    and fits2: "- 2147483648 \<le> sint (min_pulse_us p) * sint (max_duty p)"
    and fits3: "sint (max_pulse_us p) * sint (max_duty p) < 2147483648"
  shows "\<exists>d1 d2. servo_duty p a1 = Some d1 \<and> servo_duty p a2 = Some d2 \<and> sint d1 \<le> sint d2"
proof -
  define m where "m = sint (max_duty p)"
  define t where "t = sint (period_us p)"
  define d where "d = sint (max_pulse_us p) - sint (min_pulse_us p)"
  have in1: "0 \<le> sint a1" "sint a1 \<le> 180" and in2: "0 \<le> sint a2" "sint a2 \<le> 180"
    using a1 a12 a2 by simp_all
  have d0: "0 \<le> d" using order by (simp add: d_def)
  have w1: "sint (servo_pulse_width_us p a1) = sint (min_pulse_us p) + sint a1 * d div 180"
    unfolding d_def by (rule sint_servo_pulse_width_us [OF in1 order fits1])
  have w2: "sint (servo_pulse_width_us p a2) = sint (min_pulse_us p) + sint a2 * d div 180"
    unfolding d_def by (rule sint_servo_pulse_width_us [OF in2 order fits1])
  have "sint a1 * d \<le> sint a2 * d" using a12 d0 by (rule mult_right_mono)
  then have "sint a1 * d div 180 \<le> sint a2 * d div 180" by (rule zdiv_mono1) simp
  then have w12: "sint (servo_pulse_width_us p a1) \<le> sint (servo_pulse_width_us p a2)"
    by (simp add: w1 w2)
  have fit: "- 2147483648 \<le> sint (servo_pulse_width_us p a) * m
             \<and> sint (servo_pulse_width_us p a) * m < 2147483648"
    if a: "0 \<le> sint a" "sint a \<le> 180" for a
  proof -
    note b = pulse_between [OF a order fits1]
    have "sint (min_pulse_us p) * m \<le> sint (servo_pulse_width_us p a) * m"
      using b(1) duty0 by (simp add: m_def mult_right_mono)
    moreover have "sint (servo_pulse_width_us p a) * m \<le> sint (max_pulse_us p) * m"
      using b(2) duty0 by (simp add: m_def mult_right_mono)
    ultimately show ?thesis using fits2 fits3 by (simp add: m_def)
  qed
  obtain d1 where d1: "servo_duty p a1 = Some d1"
    and s1: "sint d1 = (sint (servo_pulse_width_us p a1) * m) sdiv t"
    using servo_duty_value [of p a1] period fit [OF in1] by (auto simp add: m_def t_def)
  obtain d2 where d2: "servo_duty p a2 = Some d2"
    and s2: "sint d2 = (sint (servo_pulse_width_us p a2) * m) sdiv t"
    using servo_duty_value [of p a2] period fit [OF in2] by (auto simp add: m_def t_def)
  have "sint (servo_pulse_width_us p a1) * m \<le> sint (servo_pulse_width_us p a2) * m"
    using w12 duty0 by (simp add: m_def mult_right_mono)
  then have "sint d1 \<le> sint d2"
    unfolding s1 s2 using period by (intro sdiv_mono) (simp_all add: t_def)
  then show ?thesis using d1 d2 by simp
qed

text \<open>
  C6. For angles \<open>a1 \<le> a2\<close> in \<open>[0, 180]\<close> and fixed pulse bounds with
  \<open>0 \<le> min_pulse_us \<le> max_pulse_us \<le> period_us\<close>, over the period and the maximal duty the
  program is compiled with, both duties are computed and the duty at \<open>a1\<close> is at most
  the duty at \<open>a2\<close>. The program's pulse bounds 500 and 2400 are of that kind.
\<close>

theorem servo_duty_monotone:
  assumes a1: "0 \<le> sint a1" and a12: "sint a1 \<le> sint a2" and a2: "sint a2 \<le> 180"
    and min0: "0 \<le> sint (min_pulse_us p)"
    and order: "sint (min_pulse_us p) \<le> sint (max_pulse_us p)"
    and period: "sint (max_pulse_us p) \<le> sint (period_us p)"
    and timer: "period_us p = SERVO_PERIOD_US" "max_duty p = SERVO_MAX_DUTY"
  shows "\<exists>d1 d2. servo_duty p a1 = Some d1 \<and> servo_duty p a2 = Some d2 \<and> sint d1 \<le> sint d2"
proof -
  have t: "sint (period_us p) = 20000" and m: "sint (max_duty p) = 8191"
    by (simp_all add: timer SERVO_PERIOD_US_def SERVO_MAX_DUTY_def)
  have duty0: "0 \<le> sint (max_duty p)" and positive: "0 < sint (period_us p)"
    by (simp_all add: t m)
  have fits1: "180 * (sint (max_pulse_us p) - sint (min_pulse_us p)) < 2147483648"
    using min0 order period by (simp add: t)
  have fits2: "- 2147483648 \<le> sint (min_pulse_us p) * sint (max_duty p)"
    using min0 by (simp add: m)
  have fits3: "sint (max_pulse_us p) * sint (max_duty p) < 2147483648"
    using period by (simp add: t m)
  show ?thesis
    by (rule servo_duty_monotone_if_fits [OF a1 a12 a2 order duty0 positive fits1 fits2 fits3])
qed

text \<open>The program's own configuration, at 30 and 150 degrees: the duties are 334 and 853.\<close>

theorem servo_duty_monotone_witness:
  "0 \<le> sint (30 :: c_int) \<and> sint (30 :: c_int) \<le> sint (150 :: c_int) \<and> sint (150 :: c_int) \<le> 180
   \<and> 0 \<le> sint (min_pulse_us servo_config)
   \<and> sint (min_pulse_us servo_config) \<le> sint (max_pulse_us servo_config)
   \<and> sint (max_pulse_us servo_config) \<le> sint (period_us servo_config)
   \<and> period_us servo_config = SERVO_PERIOD_US
   \<and> max_duty servo_config = SERVO_MAX_DUTY
   \<and> (\<exists>d1 d2. servo_duty servo_config 30 = Some d1 \<and> servo_duty servo_config 150 = Some d2
         \<and> sint d1 \<le> sint d2)"
  using servo_duty_monotone [of 30 150 servo_config]
  by (simp add: servo_config_simps)

section \<open>Clamping\<close>

lemma clamp_int_idem: "clamp_int (clamp_int angle 0 180) 0 180 = clamp_int angle 0 180"
  by (simp add: clamp_int_def c_lt_def c_gt_def)

lemma servo_pulse_width_us_clamp:
  "servo_pulse_width_us p (clamp_int angle 0 180) = servo_pulse_width_us p angle"
  by (simp add: servo_pulse_width_us_def clamp_int_idem)

lemma servo_duty_clamp: "servo_duty p (clamp_int angle 0 180) = servo_duty p angle"
  by (simp add: servo_duty_def servo_pulse_width_us_clamp)

text \<open>
  C4. An angle below 0 is treated as 0 and an angle above 180 as 180: pulse width, duty
  and the calls made to the LEDC driver are those of the clamped angle, for every
  configuration and all driver results.
\<close>

theorem set_servo_angle_clamps:
  assumes "sint angle < 0 \<or> 180 < sint angle"
  shows "clamp_int angle 0 180 = (if sint angle < 0 then 0 else 180)
       \<and> servo_pulse_width_us p angle = servo_pulse_width_us p (clamp_int angle 0 180)
       \<and> servo_duty p angle = servo_duty p (clamp_int angle 0 180)
       \<and> set_servo_angle env angle = set_servo_angle env (clamp_int angle 0 180)"
proof -
  have "clamp_int angle 0 180 = (if sint angle < 0 then 0 else 180)"
    using assms by (auto simp add: clamp_int_def c_lt_def c_gt_def)
  moreover have "servo_pulse_width_us p angle = servo_pulse_width_us p (clamp_int angle 0 180)"
    by (simp only: servo_pulse_width_us_clamp)
  moreover have "servo_duty p angle = servo_duty p (clamp_int angle 0 180)"
    by (simp only: servo_duty_clamp)
  moreover have "set_servo_angle env angle = set_servo_angle env (clamp_int angle 0 180)"
    by (simp only: set_servo_angle_def servo_duty_clamp)
  ultimately show ?thesis by (intro conjI)
qed

text \<open>The spec's examples, -10 and 200.\<close>

theorem set_servo_angle_clamps_witness:
  "(sint (- 10 :: c_int) < 0 \<or> 180 < sint (- 10 :: c_int))
   \<and> (sint (200 :: c_int) < 0 \<or> 180 < sint (200 :: c_int))
   \<and> servo_duty servo_config (- 10) = servo_duty servo_config 0
   \<and> servo_duty servo_config 200 = servo_duty servo_config 180
   \<and> set_servo_angle sample_env (- 10) = set_servo_angle sample_env 0
   \<and> set_servo_angle sample_env 200 = set_servo_angle sample_env 180"
  using set_servo_angle_clamps [of "- 10" servo_config sample_env]
    set_servo_angle_clamps [of 200 servo_config sample_env]
  by simp

section \<open>The decision pipeline\<close>

text \<open>
  C5. The three end-to-end scenarios, with the program's threshold and servo constants:
  readings (2000, 1500) give East, 30 degrees, 816 microseconds, duty 334;
  (1800, 1850) give Overhead, 90 degrees, 1450 microseconds, duty 593;
  (1000, 1600) give West, 150 degrees, 2083 microseconds, duty 853.
\<close>

theorem end_to_end_scenarios:
  "detect_sun_direction 2000 1500 = SUN_EAST
   \<and> compute_tilt_angle (detect_sun_direction 2000 1500) = 30
   \<and> servo_pulse_width_us servo_config (compute_tilt_angle (detect_sun_direction 2000 1500)) = 816
   \<and> servo_duty servo_config (compute_tilt_angle (detect_sun_direction 2000 1500)) = Some 334
   \<and> detect_sun_direction 1800 1850 = SUN_OVERHEAD
   \<and> compute_tilt_angle (detect_sun_direction 1800 1850) = 90
   \<and> servo_pulse_width_us servo_config (compute_tilt_angle (detect_sun_direction 1800 1850)) = 1450
   \<and> servo_duty servo_config (compute_tilt_angle (detect_sun_direction 1800 1850)) = Some 593
   \<and> detect_sun_direction 1000 1600 = SUN_WEST
   \<and> compute_tilt_angle (detect_sun_direction 1000 1600) = 150
   \<and> servo_pulse_width_us servo_config (compute_tilt_angle (detect_sun_direction 1000 1600)) = 2083
   \<and> servo_duty servo_config (compute_tilt_angle (detect_sun_direction 1000 1600)) = Some 853"
proof -
  have e: "detect_sun_direction 2000 1500 = SUN_EAST"
    and o: "detect_sun_direction 1800 1850 = SUN_OVERHEAD"
    and w: "detect_sun_direction 1000 1600 = SUN_WEST"
    by (simp_all add: sun_eval_simps)
  have t: "compute_tilt_angle SUN_EAST = 30" "compute_tilt_angle SUN_OVERHEAD = 90"
    "compute_tilt_angle SUN_WEST = 150"
    using sun_codes_distinct by (simp_all add: compute_tilt_angle_def)
  show ?thesis by (simp add: e o w t servo_at_30 servo_at_90 servo_at_150)
qed

lemma detect_sun_direction_cases:
  "detect_sun_direction east west \<in> {SUN_EAST, SUN_OVERHEAD, SUN_WEST}"
  by (simp add: detect_sun_direction_def detect_sun_direction_with_def Let_def)

lemma compute_tilt_angle_cases: "compute_tilt_angle s \<in> {30, 90, 150}"
  by (simp add: compute_tilt_angle_def)

text \<open>
  C10. For every pair of readings the pipeline yields a tilt angle among 30, 90 and 150,
  and with it the duty 334, 593 or 853 respectively; no other command is computed.
\<close>

theorem pipeline_commands:
  "compute_tilt_angle (detect_sun_direction east west) \<in> {30, 90, 150}
   \<and> (compute_tilt_angle (detect_sun_direction east west),
       servo_duty servo_config (compute_tilt_angle (detect_sun_direction east west)))
        \<in> {(30, Some 334), (90, Some 593), (150, Some 853)}"
proof -
  define a where "a = compute_tilt_angle (detect_sun_direction east west)"
  have "a \<in> {30, 90, 150}" unfolding a_def by (rule compute_tilt_angle_cases)
  then have "a = 30 \<or> a = 90 \<or> a = 150" by simp
  then have "(a, servo_duty servo_config a) \<in> {(30, Some 334), (90, Some 593), (150, Some 853)}"
    using servo_at_30(2) servo_at_90(2) servo_at_150(2) by auto
  then show ?thesis using \<open>a \<in> {30, 90, 150}\<close> unfolding a_def by simp
qed

section \<open>The request URL\<close>

text \<open>
  A 32-bit \<open>int\<close> prints in at most 11 characters, so the URL has at most 133 and the
  256-byte buffer never truncates it.
\<close>

lemma dec_nat_length: "n < 10 ^ k \<Longrightarrow> 0 < k \<Longrightarrow> length (dec_nat n) \<le> k"
proof (induction k arbitrary: n)
  case 0
  then show ?case by simp
next
  case (Suc k)
  show ?case
  proof (cases "n < 10")
    case True
    then show ?thesis by (subst dec_nat.simps) simp
  next
    case False
    then have k: "0 < k" using Suc.prems(1) by (cases k) simp_all
    have "n div 10 < 10 ^ k" using Suc.prems(1) by (simp add: less_mult_imp_div_less mult.commute)
    then have "length (dec_nat (n div 10)) \<le> k" using k by (rule Suc.IH)
    then show ?thesis using False by (subst dec_nat.simps) simp
  qed
qed

lemma printf_d_length: "length (printf_d i) \<le> 11"
proof -
  have "nat (- sint i) < 10 ^ 10" "nat (sint i) < 10 ^ 10"
    using sint_bounds [of i] by simp_all
  then have "length (dec_nat (nat (- sint i))) \<le> 10" "length (dec_nat (nat (sint i))) \<le> 10"
    by (simp_all add: dec_nat_length)
  then show ?thesis by (simp add: printf_d_def)
qed


lemma thingspeak_format:
  "format_str ''http://api.thingspeak.com/update?api_key=%s&field1=%d&field2=%d&field3=%d&field4=%d''
     [Arg_s key, Arg_d east, Arg_d west, Arg_d sun, Arg_d angle]
   = ''http://api.thingspeak.com/update?api_key='' @ key @ ''&field1='' @ printf_d east
       @ ''&field2='' @ printf_d west @ ''&field3='' @ printf_d sun
       @ ''&field4='' @ printf_d angle"
  by simp

lemma thingspeak_url:
  "snprintf 256 ''http://api.thingspeak.com/update?api_key=%s&field1=%d&field2=%d&field3=%d&field4=%d''
     [Arg_s THINGSPEAK_API_KEY, Arg_d east, Arg_d west, Arg_d sun, Arg_d angle]
   = ''http://api.thingspeak.com/update?api_key=JA0W2AWRBR5KH8ZF&field1='' @ printf_d east
       @ ''&field2='' @ printf_d west @ ''&field3='' @ printf_d sun
       @ ''&field4='' @ printf_d angle"
proof -
  have "length (printf_d east) + length (printf_d west) + length (printf_d sun)
          + length (printf_d angle) \<le> 44"
    using printf_d_length [of east] printf_d_length [of west] printf_d_length [of sun]
      printf_d_length [of angle] by linarith
  then show ?thesis
    unfolding snprintf_def thingspeak_format by (simp add: THINGSPEAK_API_KEY_def)
qed

section \<open>One pass of the loop\<close>

lemmas eff_simps = eff_bind_def emit_def ret_def ESP_ERROR_CHECK_def

lemma servo_duty_config_defined: "\<exists>d. servo_duty servo_config angle = Some d"
  by (simp add: servo_duty_def c_div_def servo_config_simps)

lemma read_ldr_values_result:
  "read_ldr_values env =
     (if fst (adc_east env) \<noteq> ESP_OK then ([Adc_oneshot_read LDR_EAST_CH, Abort], None)
      else if fst (adc_west env) \<noteq> ESP_OK
        then ([Adc_oneshot_read LDR_EAST_CH, Adc_oneshot_read LDR_WEST_CH, Abort], None)
      else ([Adc_oneshot_read LDR_EAST_CH, Adc_oneshot_read LDR_WEST_CH],
            Some (snd (adc_east env), snd (adc_west env))))"
  by (simp add: read_ldr_values_def eff_simps)

lemma set_servo_angle_result:
  assumes "servo_duty servo_config angle = Some d"
  shows "set_servo_angle env angle =
     (if ledc_set_duty_ret env \<noteq> ESP_OK then ([Ledc_set_duty d, Abort], None)
      else if ledc_update_duty_ret env \<noteq> ESP_OK
        then ([Ledc_set_duty d, Ledc_update_duty, Abort], None)
      else ([Ledc_set_duty d, Ledc_update_duty], Some ()))"
  using assms
  by (simp add: set_servo_angle_def eff_simps)

lemma send_to_thingspeak_result:
  "send_to_thingspeak env east west sun angle =
     ([Http_client_init HTTP_METHOD_GET
         (''http://api.thingspeak.com/update?api_key=JA0W2AWRBR5KH8ZF&field1='' @ printf_d east
            @ ''&field2='' @ printf_d west @ ''&field3='' @ printf_d sun
            @ ''&field4='' @ printf_d angle),
       Http_client_perform,
       if http_perform_ret env = ESP_OK then Printf_update_sent
       else Printf_send_failed (http_perform_ret env),
       Http_client_cleanup], Some ())"
  unfolding send_to_thingspeak_def thingspeak_url Let_def
  by (simp add: eff_simps)

lemma loop_body_result:
  assumes "servo_duty servo_config
             (compute_tilt_angle (detect_sun_direction (snd (adc_east env)) (snd (adc_west env))))
           = Some d"
  shows "loop_body env =
     (if fst (adc_east env) \<noteq> ESP_OK
        then ([Printf_loop_running, Adc_oneshot_read LDR_EAST_CH, Abort], None)
      else if fst (adc_west env) \<noteq> ESP_OK
        then ([Printf_loop_running, Adc_oneshot_read LDR_EAST_CH, Adc_oneshot_read LDR_WEST_CH,
               Abort], None)
      else if ledc_set_duty_ret env \<noteq> ESP_OK
        then ([Printf_loop_running, Adc_oneshot_read LDR_EAST_CH, Adc_oneshot_read LDR_WEST_CH,
               Ledc_set_duty d, Abort], None)
      else if ledc_update_duty_ret env \<noteq> ESP_OK
        then ([Printf_loop_running, Adc_oneshot_read LDR_EAST_CH, Adc_oneshot_read LDR_WEST_CH,
               Ledc_set_duty d, Ledc_update_duty, Abort], None)
      else ([Printf_loop_running, Adc_oneshot_read LDR_EAST_CH, Adc_oneshot_read LDR_WEST_CH,
             Ledc_set_duty d, Ledc_update_duty,
             Printf_readings (snd (adc_east env)) (snd (adc_west env))
               (detect_sun_direction (snd (adc_east env)) (snd (adc_west env)))
               (compute_tilt_angle (detect_sun_direction (snd (adc_east env)) (snd (adc_west env)))),
             Http_client_init HTTP_METHOD_GET
               (''http://api.thingspeak.com/update?api_key=JA0W2AWRBR5KH8ZF&field1=''
                  @ printf_d (snd (adc_east env))
                  @ ''&field2='' @ printf_d (snd (adc_west env))
                  @ ''&field3='' @ printf_d (detect_sun_direction (snd (adc_east env)) (snd (adc_west env)))
                  @ ''&field4='' @ printf_d (compute_tilt_angle
                        (detect_sun_direction (snd (adc_east env)) (snd (adc_west env))))),
             Http_client_perform,
             if http_perform_ret env = ESP_OK then Printf_update_sent
             else Printf_send_failed (http_perform_ret env),
             Http_client_cleanup,
             Task_delay_ms 15000], Some ()))"
  unfolding loop_body_def read_ldr_values_result Let_def send_to_thingspeak_result
  by (simp add: set_servo_angle_result [OF assms] eff_bind_def emit_def)


lemma app_main_loop_step:
  "app_main_loop (env # envs) =
     (case snd (loop_body env) of
        None \<Rightarrow> loop_body env
      | Some _ \<Rightarrow> (fst (loop_body env) @ fst (app_main_loop envs), snd (app_main_loop envs)))"
  by (cases "loop_body env") (simp add: eff_bind_def split: option.splits prod.splits)

text \<open>
  C9. \<open>send_to_thingspeak\<close> initialises one HTTP client with method GET and the URL
  \<open>http://api.thingspeak.com/update\<close> followed by the query parameters \<open>api_key\<close>,
  \<open>field1\<close> to \<open>field4\<close> holding its four arguments in decimal, performs it once and
  cleans it up. The direction codes print as 0 for East, 1 for Overhead and 2 for West.
  In a pass that reaches the uplink, the four arguments are the east reading, the west
  reading, the detected direction and the tilt angle.
\<close>

theorem telemetry_request:
  "send_to_thingspeak env east west sun angle =
     ([Http_client_init HTTP_METHOD_GET
         (''http://api.thingspeak.com/update?api_key=JA0W2AWRBR5KH8ZF&field1='' @ printf_d east
            @ ''&field2='' @ printf_d west @ ''&field3='' @ printf_d sun
            @ ''&field4='' @ printf_d angle),
       Http_client_perform,
       if http_perform_ret env = ESP_OK then Printf_update_sent
       else Printf_send_failed (http_perform_ret env),
       Http_client_cleanup], Some ())
   \<and> printf_d SUN_EAST = ''0'' \<and> printf_d SUN_OVERHEAD = ''1'' \<and> printf_d SUN_WEST = ''2''
   \<and> (fst (adc_east env) = ESP_OK \<and> fst (adc_west env) = ESP_OK
        \<and> ledc_set_duty_ret env = ESP_OK \<and> ledc_update_duty_ret env = ESP_OK \<longrightarrow>
      (\<exists>d. fst (loop_body env) =
         [Printf_loop_running, Adc_oneshot_read LDR_EAST_CH, Adc_oneshot_read LDR_WEST_CH,
          Ledc_set_duty d, Ledc_update_duty,
          Printf_readings (snd (adc_east env)) (snd (adc_west env))
            (detect_sun_direction (snd (adc_east env)) (snd (adc_west env)))
            (compute_tilt_angle (detect_sun_direction (snd (adc_east env)) (snd (adc_west env))))]
         @ fst (send_to_thingspeak env (snd (adc_east env)) (snd (adc_west env))
            (detect_sun_direction (snd (adc_east env)) (snd (adc_west env)))
            (compute_tilt_angle (detect_sun_direction (snd (adc_east env)) (snd (adc_west env)))))
         @ [Task_delay_ms 15000]))"
proof -
  obtain d where d: "servo_duty servo_config (compute_tilt_angle
      (detect_sun_direction (snd (adc_east env)) (snd (adc_west env)))) = Some d"
    using servo_duty_config_defined by blast
  have codes: "printf_d SUN_EAST = ''0''" "printf_d SUN_OVERHEAD = ''1''" "printf_d SUN_WEST = ''2''"
    by (simp_all add: SUN_EAST_def SUN_OVERHEAD_def SUN_WEST_def printf_d_def dec_nat.simps)
  show ?thesis
    apply (intro conjI impI)
        apply (rule send_to_thingspeak_result)
       apply (rule codes)+
    apply (rule exI [of _ d])
    apply (simp add: loop_body_result [OF d] send_to_thingspeak_result)
    done
qed

text \<open>A pass with readings 2000 and 1500: East, 30 degrees.\<close>

theorem telemetry_request_witness:
  "fst (adc_east sample_env) = ESP_OK \<and> fst (adc_west sample_env) = ESP_OK
   \<and> ledc_set_duty_ret sample_env = ESP_OK \<and> ledc_update_duty_ret sample_env = ESP_OK
   \<and> send_to_thingspeak sample_env 2000 1500 SUN_EAST 30 =
       ([Http_client_init HTTP_METHOD_GET
          ''http://api.thingspeak.com/update?api_key=JA0W2AWRBR5KH8ZF&field1=2000&field2=1500&field3=0&field4=30'',
         Http_client_perform, Printf_update_sent, Http_client_cleanup], Some ())
   \<and> (\<exists>d. fst (loop_body sample_env) =
         [Printf_loop_running, Adc_oneshot_read LDR_EAST_CH, Adc_oneshot_read LDR_WEST_CH,
          Ledc_set_duty d, Ledc_update_duty, Printf_readings 2000 1500 SUN_EAST 30]
         @ fst (send_to_thingspeak sample_env 2000 1500 SUN_EAST 30)
         @ [Task_delay_ms 15000])"
proof -
  have h: "fst (adc_east sample_env) = ESP_OK \<and> fst (adc_west sample_env) = ESP_OK
      \<and> ledc_set_duty_ret sample_env = ESP_OK \<and> ledc_update_duty_ret sample_env = ESP_OK"
    by (simp add: sample_env_def)
  have r: "snd (adc_east sample_env) = 2000" "snd (adc_west sample_env) = 1500"
    "detect_sun_direction 2000 1500 = SUN_EAST" "compute_tilt_angle SUN_EAST = 30"
    "http_perform_ret sample_env = ESP_OK"
    by (simp_all add: sample_env_def sun_eval_simps compute_tilt_angle_def)
  have digits: "printf_d 2000 = ''2000''" "printf_d 1500 = ''1500''" "printf_d 30 = ''30''"
    by (simp_all add: printf_d_def dec_nat.simps)
  note t = telemetry_request [of sample_env 2000 1500 SUN_EAST 30]
  have request: "send_to_thingspeak sample_env 2000 1500 SUN_EAST 30 =
       ([Http_client_init HTTP_METHOD_GET
          ''http://api.thingspeak.com/update?api_key=JA0W2AWRBR5KH8ZF&field1=2000&field2=1500&field3=0&field4=30'',
         Http_client_perform, Printf_update_sent, Http_client_cleanup], Some ())"
    using t by (simp add: digits r)
  have pass: "\<exists>d. fst (loop_body sample_env) =
         [Printf_loop_running, Adc_oneshot_read LDR_EAST_CH, Adc_oneshot_read LDR_WEST_CH,
          Ledc_set_duty d, Ledc_update_duty, Printf_readings 2000 1500 SUN_EAST 30]
         @ fst (send_to_thingspeak sample_env 2000 1500 SUN_EAST 30)
         @ [Task_delay_ms 15000]"
    using t h unfolding r by blast
  show ?thesis using h request pass by blast
qed

text \<open>
  C7. In a pass that reaches the uplink (the ADC reads and the LEDC calls succeeded), a
  failing \<open>esp_http_client_perform\<close> does not stop the process: the pass completes with
  its delay, nothing is aborted, the trace is the one of a successful send with the
  success message replaced by the failure message, the duty written to the LEDC driver
  is the same, and the loop goes on with the next pass.
\<close>

theorem uplink_failure_not_fatal:
  assumes sensors: "fst (adc_east env) = ESP_OK" "fst (adc_west env) = ESP_OK"
    and actuator: "ledc_set_duty_ret env = ESP_OK" "ledc_update_duty_ret env = ESP_OK"
    and uplink: "http_perform_ret env \<noteq> ESP_OK"
  shows "snd (loop_body env) = Some ()
       \<and> Abort \<notin> set (fst (loop_body env))
       \<and> Printf_send_failed (http_perform_ret env) \<in> set (fst (loop_body env))
       \<and> fst (loop_body env) =
           map (\<lambda>e. if e = Printf_update_sent then Printf_send_failed (http_perform_ret env) else e)
             (fst (loop_body (env\<lparr>http_perform_ret := ESP_OK\<rparr>)))
       \<and> (\<exists>d. servo_duty servo_config (compute_tilt_angle
                  (detect_sun_direction (snd (adc_east env)) (snd (adc_west env)))) = Some d
              \<and> [e \<leftarrow> fst (loop_body env). \<exists>x. e = Ledc_set_duty x] = [Ledc_set_duty d]
              \<and> [e \<leftarrow> fst (loop_body (env\<lparr>http_perform_ret := ESP_OK\<rparr>)). \<exists>x. e = Ledc_set_duty x]
                  = [Ledc_set_duty d])
       \<and> last (fst (loop_body env)) = Task_delay_ms 15000
       \<and> app_main_loop (env # envs)
           = (fst (loop_body env) @ fst (app_main_loop envs), snd (app_main_loop envs))"
proof -
  obtain d where d: "servo_duty servo_config (compute_tilt_angle
      (detect_sun_direction (snd (adc_east env)) (snd (adc_west env)))) = Some d"
    using servo_duty_config_defined by blast
  have failed: "loop_body env =
      ([Printf_loop_running, Adc_oneshot_read LDR_EAST_CH, Adc_oneshot_read LDR_WEST_CH,
        Ledc_set_duty d, Ledc_update_duty,
        Printf_readings (snd (adc_east env)) (snd (adc_west env))
          (detect_sun_direction (snd (adc_east env)) (snd (adc_west env)))
          (compute_tilt_angle (detect_sun_direction (snd (adc_east env)) (snd (adc_west env)))),
        Http_client_init HTTP_METHOD_GET
          (''http://api.thingspeak.com/update?api_key=JA0W2AWRBR5KH8ZF&field1=''
             @ printf_d (snd (adc_east env))
             @ ''&field2='' @ printf_d (snd (adc_west env))
             @ ''&field3='' @ printf_d (detect_sun_direction (snd (adc_east env)) (snd (adc_west env)))
             @ ''&field4='' @ printf_d (compute_tilt_angle
                   (detect_sun_direction (snd (adc_east env)) (snd (adc_west env))))),
        Http_client_perform, Printf_send_failed (http_perform_ret env),
        Http_client_cleanup, Task_delay_ms 15000], Some ())"
    using sensors actuator uplink by (simp add: loop_body_result [OF d])
  have d': "servo_duty servo_config (compute_tilt_angle
      (detect_sun_direction (snd (adc_east (env\<lparr>http_perform_ret := ESP_OK\<rparr>)))
         (snd (adc_west (env\<lparr>http_perform_ret := ESP_OK\<rparr>))))) = Some d"
    using d by simp
  have sent: "loop_body (env\<lparr>http_perform_ret := ESP_OK\<rparr>) =
      ([Printf_loop_running, Adc_oneshot_read LDR_EAST_CH, Adc_oneshot_read LDR_WEST_CH,
        Ledc_set_duty d, Ledc_update_duty,
        Printf_readings (snd (adc_east env)) (snd (adc_west env))
          (detect_sun_direction (snd (adc_east env)) (snd (adc_west env)))
          (compute_tilt_angle (detect_sun_direction (snd (adc_east env)) (snd (adc_west env)))),
        Http_client_init HTTP_METHOD_GET
          (''http://api.thingspeak.com/update?api_key=JA0W2AWRBR5KH8ZF&field1=''
             @ printf_d (snd (adc_east env))
             @ ''&field2='' @ printf_d (snd (adc_west env))
             @ ''&field3='' @ printf_d (detect_sun_direction (snd (adc_east env)) (snd (adc_west env)))
             @ ''&field4='' @ printf_d (compute_tilt_angle
                   (detect_sun_direction (snd (adc_east env)) (snd (adc_west env))))),
        Http_client_perform, Printf_update_sent,
        Http_client_cleanup, Task_delay_ms 15000], Some ())"
    using sensors actuator by (simp add: loop_body_result [OF d'])
  have next_pass: "app_main_loop (env # envs)
      = (fst (loop_body env) @ fst (app_main_loop envs), snd (app_main_loop envs))"
    by (simp only: app_main_loop_step failed snd_conv option.case)
  show ?thesis
    apply (intro conjI)
          apply (simp add: failed)
         apply (simp add: failed)
        apply (simp add: failed)
       apply (simp add: failed sent)
      apply (rule exI [of _ d])
      apply (simp add: d failed sent)
     apply (simp add: failed)
    apply (rule next_pass)
    done
qed

text \<open>A pass in which only the HTTP request fails (return code -1), followed by another pass.\<close>

theorem uplink_failure_not_fatal_witness:
  "fst (adc_east (sample_env\<lparr>http_perform_ret := - 1\<rparr>)) = ESP_OK
   \<and> fst (adc_west (sample_env\<lparr>http_perform_ret := - 1\<rparr>)) = ESP_OK
   \<and> ledc_set_duty_ret (sample_env\<lparr>http_perform_ret := - 1\<rparr>) = ESP_OK
   \<and> ledc_update_duty_ret (sample_env\<lparr>http_perform_ret := - 1\<rparr>) = ESP_OK
   \<and> http_perform_ret (sample_env\<lparr>http_perform_ret := - 1\<rparr>) \<noteq> ESP_OK
   \<and> snd (loop_body (sample_env\<lparr>http_perform_ret := - 1\<rparr>)) = Some ()
   \<and> Abort \<notin> set (fst (loop_body (sample_env\<lparr>http_perform_ret := - 1\<rparr>)))
   \<and> last (fst (loop_body (sample_env\<lparr>http_perform_ret := - 1\<rparr>))) = Task_delay_ms 15000
   \<and> app_main_loop [sample_env\<lparr>http_perform_ret := - 1\<rparr>, sample_env]
       = (fst (loop_body (sample_env\<lparr>http_perform_ret := - 1\<rparr>)) @ fst (app_main_loop [sample_env]),
          snd (app_main_loop [sample_env]))"
proof -
  have h: "fst (adc_east (sample_env\<lparr>http_perform_ret := - 1\<rparr>)) = ESP_OK"
    "fst (adc_west (sample_env\<lparr>http_perform_ret := - 1\<rparr>)) = ESP_OK"
    "ledc_set_duty_ret (sample_env\<lparr>http_perform_ret := - 1\<rparr>) = ESP_OK"
    "ledc_update_duty_ret (sample_env\<lparr>http_perform_ret := - 1\<rparr>) = ESP_OK"
    "http_perform_ret (sample_env\<lparr>http_perform_ret := - 1\<rparr>) \<noteq> ESP_OK"
    by (simp_all add: sample_env_def ESP_OK_def)
  show ?thesis
    using h uplink_failure_not_fatal [OF h, of "[sample_env]"] by blast
qed

text \<open>
  C8. A failing ADC read or a failing LEDC call stops the process at that call: the
  trace of the pass ends with the failing call followed by the abort, no later step of
  the pass is made, and the loop makes no further pass whatever the drivers would have
  returned.
\<close>

theorem driver_failure_aborts:
  "(fst (adc_east env) \<noteq> ESP_OK \<longrightarrow>
      loop_body env = ([Printf_loop_running, Adc_oneshot_read LDR_EAST_CH, Abort], None))
   \<and> (fst (adc_east env) = ESP_OK \<and> fst (adc_west env) \<noteq> ESP_OK \<longrightarrow>
      loop_body env = ([Printf_loop_running, Adc_oneshot_read LDR_EAST_CH,
                        Adc_oneshot_read LDR_WEST_CH, Abort], None))
   \<and> (fst (adc_east env) = ESP_OK \<and> fst (adc_west env) = ESP_OK
        \<and> ledc_set_duty_ret env \<noteq> ESP_OK \<longrightarrow>
      (\<exists>d. loop_body env = ([Printf_loop_running, Adc_oneshot_read LDR_EAST_CH,
                        Adc_oneshot_read LDR_WEST_CH, Ledc_set_duty d, Abort], None)))
   \<and> (fst (adc_east env) = ESP_OK \<and> fst (adc_west env) = ESP_OK
        \<and> ledc_set_duty_ret env = ESP_OK \<and> ledc_update_duty_ret env \<noteq> ESP_OK \<longrightarrow>
      (\<exists>d. loop_body env = ([Printf_loop_running, Adc_oneshot_read LDR_EAST_CH,
                        Adc_oneshot_read LDR_WEST_CH, Ledc_set_duty d, Ledc_update_duty,
                        Abort], None)))
   \<and> (fst (adc_east env) \<noteq> ESP_OK \<or> fst (adc_west env) \<noteq> ESP_OK
        \<or> ledc_set_duty_ret env \<noteq> ESP_OK \<or> ledc_update_duty_ret env \<noteq> ESP_OK \<longrightarrow>
      snd (loop_body env) = None
      \<and> last (fst (loop_body env)) = Abort
      \<and> app_main_loop (env # envs) = loop_body env)"
proof -
  obtain d where d: "servo_duty servo_config (compute_tilt_angle
      (detect_sun_direction (snd (adc_east env)) (snd (adc_west env)))) = Some d"
    using servo_duty_config_defined by blast
  note body = loop_body_result [OF d]
  have stop: "app_main_loop (env # envs) = loop_body env" if "snd (loop_body env) = None"
    using that by (simp only: app_main_loop_step option.case)
  have aborted: "snd (loop_body env) = None \<and> last (fst (loop_body env)) = Abort"
    if "fst (adc_east env) \<noteq> ESP_OK \<or> fst (adc_west env) \<noteq> ESP_OK
        \<or> ledc_set_duty_ret env \<noteq> ESP_OK \<or> ledc_update_duty_ret env \<noteq> ESP_OK"
    using that by (auto simp add: body)
  show ?thesis
    apply (intro conjI impI)
          apply (simp add: body)
         apply (simp add: body)
        apply (rule exI [of _ d], simp add: body)
       apply (rule exI [of _ d], simp add: body)
      apply (simp add: aborted)
     apply (simp add: aborted)
    apply (rule stop, simp add: aborted)
    done
qed

text \<open>A failing east read, and a failing duty update, each followed by a pass that would succeed.\<close>

theorem driver_failure_aborts_witness:
  "fst (adc_east (sample_env\<lparr>adc_east := (- 1, 0)\<rparr>)) \<noteq> ESP_OK
   \<and> loop_body (sample_env\<lparr>adc_east := (- 1, 0)\<rparr>)
       = ([Printf_loop_running, Adc_oneshot_read LDR_EAST_CH, Abort], None)
   \<and> app_main_loop [sample_env\<lparr>adc_east := (- 1, 0)\<rparr>, sample_env]
       = loop_body (sample_env\<lparr>adc_east := (- 1, 0)\<rparr>)
   \<and> fst (adc_east (sample_env\<lparr>ledc_update_duty_ret := - 1\<rparr>)) = ESP_OK
   \<and> fst (adc_west (sample_env\<lparr>ledc_update_duty_ret := - 1\<rparr>)) = ESP_OK
   \<and> ledc_set_duty_ret (sample_env\<lparr>ledc_update_duty_ret := - 1\<rparr>) = ESP_OK
   \<and> ledc_update_duty_ret (sample_env\<lparr>ledc_update_duty_ret := - 1\<rparr>) \<noteq> ESP_OK
   \<and> (\<exists>d. loop_body (sample_env\<lparr>ledc_update_duty_ret := - 1\<rparr>)
       = ([Printf_loop_running, Adc_oneshot_read LDR_EAST_CH, Adc_oneshot_read LDR_WEST_CH,
           Ledc_set_duty d, Ledc_update_duty, Abort], None))
   \<and> app_main_loop [sample_env\<lparr>ledc_update_duty_ret := - 1\<rparr>, sample_env]
       = loop_body (sample_env\<lparr>ledc_update_duty_ret := - 1\<rparr>)"
proof -
  have east: "fst (adc_east (sample_env\<lparr>adc_east := (- 1, 0)\<rparr>)) \<noteq> ESP_OK"
    by (simp add: sample_env_def ESP_OK_def)
  have update: "fst (adc_east (sample_env\<lparr>ledc_update_duty_ret := - 1\<rparr>)) = ESP_OK"
    "fst (adc_west (sample_env\<lparr>ledc_update_duty_ret := - 1\<rparr>)) = ESP_OK"
    "ledc_set_duty_ret (sample_env\<lparr>ledc_update_duty_ret := - 1\<rparr>) = ESP_OK"
    "ledc_update_duty_ret (sample_env\<lparr>ledc_update_duty_ret := - 1\<rparr>) \<noteq> ESP_OK"
    by (simp_all add: sample_env_def ESP_OK_def)
  show ?thesis
    using east update
      driver_failure_aborts [of "sample_env\<lparr>adc_east := (- 1, 0)\<rparr>" "[sample_env]"]
      driver_failure_aborts [of "sample_env\<lparr>ledc_update_duty_ret := - 1\<rparr>" "[sample_env]"]
    by blast
qed

end
